theory Spec2Isabelle
  imports Main "HOL-Library.Word"
begin

unbundle bit_operations_syntax

section \<open>Exceptions\<close>

text \<open>
  The exceptions that cross the methods of \<open>Auth\<close>: sqlalchemy's \<open>NoResultFound\<close>, the
  \<open>ValueError\<close> that \<open>auth.py\<close> raises with a message, and the \<open>TypeError\<close> that Python
  raises when a call does not fit the callee (a missing positional argument, a call of
  \<open>None\<close>), and the \<open>UnicodeEncodeError\<close> of \<open>str.encode\<close>. A method returns \<open>Inl e\<close>
  where the Python raises \<open>e\<close>.
\<close>

datatype error = NoResultFound | ValueError string | TypeError | UnicodeEncodeError

section \<open>The user table\<close>

text \<open>
  Modelled from the spec: the \<open>User\<close> class of \<open>user.py\<close>, which is not part of the
  source. Section 3 of the specification gives its attributes; the names are the ones
  \<open>auth.py\<close> uses for them (\<open>user.id\<close>, \<open>user.hashed_password\<close>, and the keywords
  \<open>email\<close>, \<open>session_id\<close>, \<open>reset_token\<close>). \<open>None\<close> is the null token.
\<close>

record user =
  user_id :: int
  email :: string
  hashed_password :: string
  session_id :: "string option"
  reset_token :: "string option"

text \<open>
  The keyword argument of a lookup, \<open>find_user_by(email=...)\<close>,
  \<open>find_user_by(session_id=...)\<close> or \<open>find_user_by(reset_token=...)\<close>, and the keyword
  arguments of an update.
\<close>

datatype criterion = email_is string | session_id_is string | reset_token_is string

datatype assignment =
    set_hashed_password string
  | set_session_id "string option"
  | set_reset_token "string option"

fun matches :: "criterion \<Rightarrow> user \<Rightarrow> bool" where
  "matches (email_is e) u = (email u = e)"
| "matches (session_id_is t) u = (session_id u = Some t)"
| "matches (reset_token_is t) u = (reset_token u = Some t)"

fun assign :: "assignment \<Rightarrow> user \<Rightarrow> user" where
  "assign (set_hashed_password h) u = u\<lparr>hashed_password := h\<rparr>"
| "assign (set_session_id t) u = u\<lparr>session_id := t\<rparr>"
| "assign (set_reset_token t) u = u\<lparr>reset_token := t\<rparr>"

text \<open>
  Modelled from the spec: \<open>DB.find_user_by\<close> of \<open>db.py\<close>, which is not part of the
  source. Section 6: a lookup by one unique field that returns the matching record and
  fails with a NotFound signal when no record matches. The table is the list of its rows
  in insertion order, and the lookup returns the first row that matches.
\<close>

definition find_user_by :: "criterion \<Rightarrow> user list \<Rightarrow> error + user" where
  "find_user_by c rows =
     (case find (matches c) rows of None \<Rightarrow> Inl NoResultFound | Some u \<Rightarrow> Inr u)"

text \<open>
  Modelled from the spec: \<open>DB.add_user\<close> of \<open>db.py\<close>. Section 6: insert a record with
  the given email and digest and a freshly assigned id; sections 3 and 4.1: a new record
  has no session token and no reset token. The fresh id is one above the largest id of the
  table (and at least 1).
\<close>

definition fresh_id :: "user list \<Rightarrow> int" where
  "fresh_id rows = 1 + fold max (map user_id rows) 0"

definition add_user :: "string \<Rightarrow> string \<Rightarrow> user list \<Rightarrow> user \<times> user list" where
  "add_user e h rows =
     (let new_user = \<lparr>user_id = fresh_id rows, email = e, hashed_password = h,
                       session_id = None, reset_token = None\<rparr>
      in (new_user, rows @ [new_user]))"

text \<open>
  Modelled from the spec: \<open>DB.update_user\<close> of \<open>db.py\<close>. Section 6:
  \<open>update(id, partial_fields)\<close> applies the given fields to the record with that id, as one
  write, and returns nothing; section 4.1 (\<open>destroy_session\<close>): it does not fail when no
  record has the id. The first argument of the model is the list of the positional
  arguments of the call: the record's id is a required positional parameter (every other
  call in \<open>auth.py\<close> passes it first), so Python raises \<open>TypeError\<close> for a call with any
  other number of positional arguments, before the body runs.
\<close>

definition update_user :: "int list \<Rightarrow> assignment list \<Rightarrow> user list \<Rightarrow> error + user list" where
  "update_user args kwargs rows =
     (case args of
        [uid] \<Rightarrow> Inr (map (\<lambda>u. if user_id u = uid then fold assign kwargs u else u) rows)
      | _ \<Rightarrow> Inl TypeError)"

section \<open>Randomness, tokens and password digests\<close>

text \<open>
  The state of an \<open>Auth\<close> object and of what it draws on: the table behind \<open>self._db\<close>,
  and the operating system's random source, an infinite sequence of 16-byte blocks of
  which \<open>reads\<close> have been consumed. \<open>uuid.uuid4()\<close> and \<open>bcrypt.gensalt()\<close> each read
  one block (\<open>os.urandom(16)\<close>).
\<close>

record auth =
  db :: "user list"
  urandom :: "nat \<Rightarrow> 128 word"
  reads :: nat

definition os_urandom16 :: "auth \<Rightarrow> 128 word \<times> auth" where
  "os_urandom16 s = (urandom s (reads s), s\<lparr>reads := Suc (reads s)\<rparr>)"

text \<open>
  \<open>uuid.uuid4()\<close> of the Python standard library: the 128 bits of the block, with the
  variant and version fields overwritten as \<open>UUID.__init__\<close> does for \<open>version=4\<close>:
  \<^verbatim>\<open>int &= ~(0xc000 << 48); int |= 0x8000 << 48; int &= ~(0xf000 << 64); int |= 4 << 76\<close>.
\<close>

definition uuid4_int :: "128 word \<Rightarrow> 128 word" where
  "uuid4_int r =
     (((r AND NOT (push_bit 48 0xc000)) OR push_bit 48 0x8000)
        AND NOT (push_bit 64 0xf000)) OR push_bit 76 4"

text \<open>
  \<open>str\<close> of a UUID: the 32 lower-case hexadecimal digits of the number
  (\<open>'%032x' % int\<close>), most significant first, in groups of 8, 4, 4, 4 and 12 digits
  joined by hyphens.
\<close>

definition hex_digit :: "nat \<Rightarrow> char" where
  "hex_digit n = ''0123456789abcdef'' ! n"

definition hex32 :: "128 word \<Rightarrow> string" where
  "hex32 w = map (\<lambda>i. hex_digit (unat (drop_bit (4 * (31 - i)) w AND 15))) [0..<32]"

definition str_uuid :: "128 word \<Rightarrow> string" where
  "str_uuid w =
     (let x = hex32 w
      in take 8 x @ ''-'' @ take 4 (drop 8 x) @ ''-'' @ take 4 (drop 12 x) @ ''-'' @
         take 4 (drop 16 x) @ ''-'' @ drop 20 x)"

text \<open>The token that \<open>str(uuid.uuid4())\<close> makes of one block of the random source.\<close>

definition uuid4_str :: "128 word \<Rightarrow> string" where
  "uuid4_str r = str_uuid (uuid4_int r)"

text \<open>
  A password is a Python \<open>str\<close>, and \<open>auth.py\<close> calls \<open>password.encode()\<close> on it before
  it reaches bcrypt, so a password is modelled as what \<open>encode\<close> reads: the list of its
  code points (each below \<open>0x110000\<close>). \<open>str.encode()\<close> is UTF-8 in strict mode: it raises
  \<open>UnicodeEncodeError\<close> when the string holds a surrogate code point (\<open>0xD800\<close> to
  \<open>0xDFFF\<close>), and otherwise returns one to four bytes for each code point. \<open>ascii\<close>
  makes the \<open>str\<close> of a byte string, for writing passwords down.
\<close>

type_synonym unicode = "nat list"

definition utf8 :: "nat \<Rightarrow> string" where
  "utf8 cp =
     (if cp < 0x80 then [char_of cp]
      else if cp < 0x800 then [char_of (0xC0 + cp div 0x40), char_of (0x80 + cp mod 0x40)]
      else if cp < 0x10000 then
        [char_of (0xE0 + cp div 0x1000), char_of (0x80 + cp div 0x40 mod 0x40),
         char_of (0x80 + cp mod 0x40)]
      else
        [char_of (0xF0 + cp div 0x40000), char_of (0x80 + cp div 0x1000 mod 0x40),
         char_of (0x80 + cp div 0x40 mod 0x40), char_of (0x80 + cp mod 0x40)])"

definition encode :: "unicode \<Rightarrow> error + string" where
  "encode password =
     (if list_ex (\<lambda>cp. 0xD800 \<le> cp \<and> cp \<le> 0xDFFF) password then Inl UnicodeEncodeError
      else Inr (concat (map utf8 password)))"

definition ascii :: "string \<Rightarrow> unicode" where
  "ascii cs = map of_char cs"

text \<open>
  The bcrypt library is a parameter: \<open>hashpw\<close> maps the bytes of a password and a salt
  to a digest, \<open>checkpw\<close> checks the bytes of a password against a digest, and either
  may raise instead (bcrypt 5 raises \<open>ValueError\<close> for a password of more than 72 bytes).
  Nothing is assumed of either function. The salt of \<open>bcrypt.gensalt()\<close> is one block of
  the random source.
\<close>

record bcrypt =
  hashpw :: "string \<Rightarrow> 128 word \<Rightarrow> error + string"
  checkpw :: "string \<Rightarrow> string \<Rightarrow> error + bool"

section \<open>The methods of Auth\<close>

text \<open>
  \<open>_hash_password\<close>, lines 21 to 25: the salt is drawn first (line 23); on line 24
  \<open>password.encode()\<close> is evaluated and then \<open>bcrypt.hashpw\<close> is called, and an exception
  of either leaves the method.
\<close>

definition hash_password :: "bcrypt \<Rightarrow> unicode \<Rightarrow> auth \<Rightarrow> (error + string) \<times> auth" where
  "hash_password B password s =
     (let (salt, s1) = os_urandom16 s
      in case encode password of
           Inl e \<Rightarrow> (Inl e, s1)
         | Inr encoded \<Rightarrow> (hashpw B encoded salt, s1))"

text \<open>
  \<open>register_user\<close>, lines 27 to 35. The hashing and the insertion run in the handler
  of \<open>NoResultFound\<close>, so an exception of \<open>_hash_password\<close> leaves the method before
  \<open>add_user\<close> is called.
\<close>

definition register_user :: "bcrypt \<Rightarrow> string \<Rightarrow> unicode \<Rightarrow> auth \<Rightarrow> (error + user) \<times> auth" where
  "register_user B email' password s =
     (case find_user_by (email_is email') (db s) of
        Inr existing_user \<Rightarrow> (Inl (ValueError (''User '' @ email' @ '' already exists'')), s)
      | Inl e \<Rightarrow>
          if e = NoResultFound then
            (let (hashed, s1) = hash_password B password s
             in case hashed of
                  Inl e1 \<Rightarrow> (Inl e1, s1)
                | Inr digest \<Rightarrow>
                    (let (new_user, rows) = add_user email' digest (db s1)
                     in (Inr new_user, s1\<lparr>db := rows\<rparr>)))
          else (Inl e, s))"

text \<open>
  \<open>valid_login\<close>, lines 37 to 44. The body of the \<open>try\<close> is the lookup, then
  \<open>password.encode()\<close>, then \<open>bcrypt.checkpw\<close>; the handler turns \<open>NoResultFound\<close>, and
  no other exception, into \<open>False\<close>.
\<close>

definition valid_login :: "bcrypt \<Rightarrow> string \<Rightarrow> unicode \<Rightarrow> auth \<Rightarrow> (error + bool) \<times> auth" where
  "valid_login B email' password s =
     (let body =
        (case find_user_by (email_is email') (db s) of
           Inl e \<Rightarrow> Inl e
         | Inr u \<Rightarrow>
             (case encode password of
                Inl e \<Rightarrow> Inl e
              | Inr encoded \<Rightarrow> checkpw B encoded (hashed_password u)))
      in case body of
           Inr r \<Rightarrow> (Inr r, s)
         | Inl e \<Rightarrow> if e = NoResultFound then (Inr False, s) else (Inl e, s))"

definition generate_uuid :: "auth \<Rightarrow> string \<times> auth" where
  "generate_uuid s = (let (r, s1) = os_urandom16 s in (uuid4_str r, s1))"

definition create_session :: "string \<Rightarrow> auth \<Rightarrow> (error + string option) \<times> auth" where
  "create_session email' s =
     (case find_user_by (email_is email') (db s) of
        Inl e \<Rightarrow> if e = NoResultFound then (Inr None, s) else (Inl e, s)
      | Inr u \<Rightarrow>
          (let (sid, s1) = generate_uuid s
           in case update_user [user_id u] [set_session_id (Some sid)] (db s1) of
                Inl e \<Rightarrow> if e = NoResultFound then (Inr None, s1) else (Inl e, s1)
              | Inr rows \<Rightarrow> (Inr (Some sid), s1\<lparr>db := rows\<rparr>)))"

definition get_user_from_session_id :: "string option \<Rightarrow> auth \<Rightarrow> (error + user option) \<times> auth" where
  "get_user_from_session_id sid s =
     (case sid of
        None \<Rightarrow> (Inr None, s)
      | Some t \<Rightarrow>
          if t = [] then (Inr None, s)
          else (case find_user_by (session_id_is t) (db s) of
                  Inr u \<Rightarrow> (Inr (Some u), s)
                | Inl e \<Rightarrow> if e = NoResultFound then (Inr None, s) else (Inl e, s)))"

definition destroy_session :: "int \<Rightarrow> auth \<Rightarrow> (error + unit) \<times> auth" where
  "destroy_session uid s =
     (case update_user [uid] [set_session_id None] (db s) of
        Inl e \<Rightarrow> (Inl e, s)
      | Inr rows \<Rightarrow> (Inr (), s\<lparr>db := rows\<rparr>))"

definition get_reset_password_token :: "string \<Rightarrow> auth \<Rightarrow> (error + string) \<times> auth" where
  "get_reset_password_token email' s =
     (case find_user_by (email_is email') (db s) of
        Inl e \<Rightarrow>
          if e = NoResultFound then (Inl (ValueError (''User '' @ email' @ '' does not exist'')), s)
          else (Inl e, s)
      | Inr u \<Rightarrow>
          (let (r, s1) = os_urandom16 s;
               token = uuid4_str r
           in case update_user [user_id u] [set_reset_token (Some token)] (db s1) of
                Inl e \<Rightarrow> (Inl e, s1)
              | Inr rows \<Rightarrow> (Inr token, s1\<lparr>db := rows\<rparr>)))"

text \<open>
  \<open>update_password\<close>, lines 85 to 93. Line 90 is \<open>update = self._db.update_user()\<close>: the
  call passes no argument at all, and line 91 calls what line 90 returned. The id and the
  keyword arguments \<open>hashed_password=hashed_password, reset_token=None\<close> are passed to
  that call of line 91 and never reach \<open>update_user\<close>. Had line 90 returned, its value
  would be \<open>None\<close>, and calling \<open>None\<close> raises \<open>TypeError\<close>. The \<open>except\<close> clause catches
  \<open>NoResultFound\<close> only, also from \<open>_hash_password\<close> on line 89.
\<close>

definition update_password :: "bcrypt \<Rightarrow> string \<Rightarrow> unicode \<Rightarrow> auth \<Rightarrow> (error + unit) \<times> auth" where
  "update_password B token password s =
     (case find_user_by (reset_token_is token) (db s) of
        Inl e \<Rightarrow>
          if e = NoResultFound then (Inl (ValueError ''Invalid reset token''), s)
          else (Inl e, s)
      | Inr u \<Rightarrow>
          (let (hashed, s1) = hash_password B password s
           in case hashed of
                Inl e \<Rightarrow>
                  if e = NoResultFound then (Inl (ValueError ''Invalid reset token''), s1)
                  else (Inl e, s1)
              | Inr digest \<Rightarrow>
                  (case update_user [] [] (db s1) of
                     Inl e \<Rightarrow>
                       if e = NoResultFound then (Inl (ValueError ''Invalid reset token''), s1)
                       else (Inl e, s1)
                   | Inr rows \<Rightarrow> (Inl TypeError, s1\<lparr>db := rows\<rparr>))))"

section \<open>The fixed bits of a version-4 UUID\<close>

text \<open>
  For counting the values of \<open>uuid4_int\<close>: the word with the single bit \<open>k\<close> set, the
  words whose bits at given positions have given values, and the six positions that
  \<open>uuid4_int\<close> overwrites (variant \<open>10\<close> at bits 63 and 62, version \<open>0100\<close> at bits 79
  to 76).
\<close>

definition single_bit :: "nat \<Rightarrow> 128 word" where
  "single_bit k = push_bit k 1"

definition fits :: "(nat \<times> bool) list \<Rightarrow> 128 word \<Rightarrow> bool" where
  "fits ps w \<longleftrightarrow> list_all (\<lambda>(k, b). bit w k = b) ps"

definition fixed_bits :: "(nat \<times> bool) list" where
  "fixed_bits = [(62, False), (63, True), (76, False), (77, False), (78, True), (79, False)]"

section \<open>A concrete table\<close>

text \<open>
  A toy instance of the bcrypt parameter (it refuses more than 72 bytes, as bcrypt 5
  does), a random source that counts its blocks, and the
  state after \<open>register_user "a@x.com" "p1"\<close> on the empty table, for evaluating the
  methods at concrete inputs.
\<close>

definition example_bcrypt :: bcrypt where
  "example_bcrypt =
     \<lparr>hashpw = (\<lambda>p salt. if 72 < length p
                          then Inl (ValueError ''password cannot be longer than 72 bytes'')
                          else Inr (''$2b$'' @ p)),
      checkpw = (\<lambda>p d. if 72 < length p
                       then Inl (ValueError ''password cannot be longer than 72 bytes'')
                       else Inr (d = ''$2b$'' @ p))\<rparr>"

definition example_auth :: auth where
  "example_auth = \<lparr>db = [], urandom = (\<lambda>n. of_nat n), reads = 0\<rparr>"

definition example_user :: user where
  "example_user = \<lparr>user_id = 1, email = ''a@x.com'', hashed_password = ''$2b$p1'',
                    session_id = None, reset_token = None\<rparr>"

definition example_registered :: auth where
  "example_registered = \<lparr>db = [example_user], urandom = (\<lambda>n. of_nat n), reads = 1\<rparr>"

text \<open>
  The same table with a random source that repeats one block; and the states of the
  example after a session was created with the token \<open>s-1\<close>, after
  \<open>get_reset_password_token\<close>, and after one and two calls of \<open>create_session\<close>.
\<close>

definition example_stuck :: auth where
  "example_stuck = \<lparr>db = [example_user], urandom = (\<lambda>n. 0), reads = 0\<rparr>"

definition example_session :: auth where
  "example_session =
     \<lparr>db = [example_user\<lparr>session_id := Some ''s-1''\<rparr>], urandom = (\<lambda>n. of_nat n), reads = 2\<rparr>"

definition example_reset :: auth where
  "example_reset =
     \<lparr>db = [example_user\<lparr>reset_token := Some ''00000000-0000-4000-8000-000000000001''\<rparr>],
      urandom = (\<lambda>n. of_nat n), reads = 2\<rparr>"

definition example_session1 :: auth where
  "example_session1 =
     \<lparr>db = [example_user\<lparr>session_id := Some ''00000000-0000-4000-8000-000000000001''\<rparr>],
      urandom = (\<lambda>n. of_nat n), reads = 2\<rparr>"

definition example_session2 :: auth where
  "example_session2 =
     \<lparr>db = [example_user\<lparr>session_id := Some ''00000000-0000-4000-8000-000000000002''\<rparr>],
      urandom = (\<lambda>n. of_nat n), reads = 3\<rparr>"

section \<open>Lookups and updates of the table\<close>

lemma find_SomeD: "find P xs = Some x \<Longrightarrow> x \<in> set xs \<and> P x"
  by (induction xs) (auto split: if_splits)

lemma find_user_by_Inl:
  "find_user_by c rows = Inl e \<longleftrightarrow> e = NoResultFound \<and> \<not> list_ex (matches c) rows"
  by (auto simp: find_user_by_def find_None_iff list_ex_iff split: option.splits dest: find_SomeD)

lemma find_user_by_absent:
  "\<not> list_ex (matches c) rows \<Longrightarrow> find_user_by c rows = Inl NoResultFound"
  by (simp add: find_user_by_Inl)

lemma find_user_by_Inr:
  "find_user_by c rows = Inr u \<Longrightarrow> u \<in> set rows \<and> matches c u"
  by (auto simp: find_user_by_def split: option.splits dest: find_SomeD)

lemma find_user_by_present:
  "list_ex (matches c) rows \<Longrightarrow> \<exists>u. find_user_by c rows = Inr u \<and> u \<in> set rows \<and> matches c u"
  by (cases "find_user_by c rows") (auto simp: find_user_by_Inl dest: find_user_by_Inr)

lemma fresh_id_above: "u \<in> set rows \<Longrightarrow> user_id u < fresh_id rows"
proof -
  have *: "\<And>a. (\<forall>x \<in> set xs. x \<le> fold max xs a) \<and> a \<le> fold max xs (a::int)" for xs
  proof (induction xs)
    case Nil show ?case by simp
  next
    case (Cons y ys)
    have "max y a \<le> fold max ys (max y a)" using Cons by blast
    then show ?case using Cons[of "max y a"] by auto
  qed
  assume "u \<in> set rows"
  then have "user_id u \<le> fold max (map user_id rows) 0" using *[of "map user_id rows" 0] by auto
  then show ?thesis by (simp add: fresh_id_def)
qed

lemma update_user_one:
  "update_user [uid] kwargs rows =
     Inr (map (\<lambda>u. if user_id u = uid then fold assign kwargs u else u) rows)"
  by (simp add: update_user_def)

lemma update_user_none: "update_user [] kwargs rows = Inl TypeError"
  by (simp add: update_user_def)

lemma email_absent:
  "(\<forall>u\<in>set rows. email u \<noteq> e) \<Longrightarrow> find_user_by (email_is e) rows = Inl NoResultFound"
  by (rule find_user_by_absent) (simp add: list_ex_iff)

lemma email_present:
  "(\<exists>u\<in>set rows. email u = e) \<Longrightarrow>
     \<exists>u. find_user_by (email_is e) rows = Inr u \<and> u \<in> set rows \<and> email u = e"
  using find_user_by_present[of "email_is e" rows] by (auto simp: list_ex_iff)

lemma session_absent:
  "(\<forall>u\<in>set rows. session_id u \<noteq> Some t) \<Longrightarrow> find_user_by (session_id_is t) rows = Inl NoResultFound"
  by (rule find_user_by_absent) (simp add: list_ex_iff)

lemma session_present:
  "(\<exists>u\<in>set rows. session_id u = Some t) \<Longrightarrow>
     \<exists>u. find_user_by (session_id_is t) rows = Inr u \<and> u \<in> set rows \<and> session_id u = Some t"
  using find_user_by_present[of "session_id_is t" rows] by (auto simp: list_ex_iff)

lemma update_user_session_id:
  "update_user [uid] [set_session_id v] rows =
     Inr (map (\<lambda>u. if user_id u = uid then u\<lparr>session_id := v\<rparr> else u) rows)"
  by (simp add: update_user_def cong: if_cong)

lemma update_user_reset_token:
  "update_user [uid] [set_reset_token v] rows =
     Inr (map (\<lambda>u. if user_id u = uid then u\<lparr>reset_token := v\<rparr> else u) rows)"
  by (simp add: update_user_def cong: if_cong)

lemma find_user_by_map:
  assumes "\<And>u. matches c (f u) = matches c u"
  shows "find_user_by c (map f rows) = map_sum id f (find_user_by c rows)"
proof -
  have "find (matches c) (map f rows) = map_option f (find (matches c) rows)"
    by (induction rows) (simp_all add: assms)
  then show ?thesis
    by (simp add: find_user_by_def split: option.splits)
qed

lemma update_only_found:
  assumes "distinct (map user_id rows)" "u \<in> set rows"
  shows "map (\<lambda>x. if user_id x = user_id u then g x else x) rows =
         map (\<lambda>x. if x = u then g x else x) rows"
proof (rule map_cong[OF refl])
  fix x assume "x \<in> set rows"
  with assms have "user_id x = user_id u \<longleftrightarrow> x = u"
    by (meson distinct_map inj_on_eq_iff)
  then show "(if user_id x = user_id u then g x else x) = (if x = u then g x else x)"
    by simp
qed

lemma create_session_found:
  "find_user_by (email_is e) (db s) = Inr u \<Longrightarrow>
     create_session e s =
       (Inr (Some (uuid4_str (urandom s (reads s)))),
        s\<lparr>db := map (\<lambda>x. if user_id x = user_id u
                           then x\<lparr>session_id := Some (uuid4_str (urandom s (reads s)))\<rparr> else x) (db s),
          reads := Suc (reads s)\<rparr>)"
  by (simp add: create_session_def generate_uuid_def os_urandom16_def update_user_session_id)

lemma find_by_email_after_session_update:
  "find_user_by (email_is e) rows = Inr u \<Longrightarrow>
     find_user_by (email_is e)
       (map (\<lambda>x. if user_id x = user_id u then x\<lparr>session_id := v\<rparr> else x) rows) =
     Inr (u\<lparr>session_id := v\<rparr>)"
  by (subst find_user_by_map) simp_all


lemma get_reset_password_token_found:
  "find_user_by (email_is e) (db s) = Inr u \<Longrightarrow>
     get_reset_password_token e s =
       (Inr (uuid4_str (urandom s (reads s))),
        s\<lparr>db := map (\<lambda>x. if user_id x = user_id u
                           then x\<lparr>reset_token := Some (uuid4_str (urandom s (reads s)))\<rparr> else x) (db s),
          reads := Suc (reads s)\<rparr>)"
  by (simp add: get_reset_password_token_def os_urandom16_def update_user_reset_token Let_def)

lemma find_user_by_unique:
  assumes "u \<in> set rows" "matches c u" "\<forall>x\<in>set rows. matches c x \<longrightarrow> x = u"
  shows "find_user_by c rows = Inr u"
proof -
  from assms(1,2) have "list_ex (matches c) rows" by (auto simp: list_ex_iff)
  then obtain v where "find_user_by c rows = Inr v" "v \<in> set rows" "matches c v"
    using find_user_by_present by blast
  with assms(3) show ?thesis by auto
qed

section \<open>Encoding and hashing a password\<close>

lemma encode_Inl: "encode p = Inl e \<Longrightarrow> e = UnicodeEncodeError"
  by (simp add: encode_def split: if_splits)

lemma encode_ascii:
  "\<forall>c\<in>set cs. (of_char c :: nat) < 128 \<Longrightarrow> encode (ascii cs) = Inr cs"
proof -
  assume a: "\<forall>c\<in>set cs. (of_char c :: nat) < 128"
  then have "\<not> list_ex (\<lambda>cp. 0xD800 \<le> cp \<and> cp \<le> 0xDFFF) (ascii cs)"
    by (auto simp: ascii_def list_ex_iff)
  moreover from a have "concat (map utf8 (ascii cs)) = cs"
    by (induction cs) (simp_all add: ascii_def utf8_def)
  ultimately show ?thesis by (simp add: encode_def)
qed

lemma encode_surrogate: "encode [0xDC80] = Inl UnicodeEncodeError"
  by (simp add: encode_def)

lemma encode_examples:
  "encode [0x70, 0xE9, 0x20AC, 0x1F600] =
     Inr (map char_of [0x70, 0xC3, 0xA9, 0xE2, 0x82, 0xAC, 0xF0, 0x9F, 0x98, 0x80 :: nat])"
  by (simp add: encode_def utf8_def)

lemma hash_password_eq:
  "hash_password B p s =
     (case encode p of Inl e \<Rightarrow> Inl e | Inr encoded \<Rightarrow> hashpw B encoded (urandom s (reads s)),
      s\<lparr>reads := Suc (reads s)\<rparr>)"
  by (simp add: hash_password_def os_urandom16_def split: sum.splits)

section \<open>Unique ids and emails\<close>

text \<open>
  Updates change neither the id nor the email of a row, and \<open>register_user\<close> keeps ids
  and emails unique: the tables the methods reach from the empty table have unique ids
  and unique emails.
\<close>

lemma assign_keeps_id_and_email:
  "user_id (fold assign kwargs x) = user_id x \<and> email (fold assign kwargs x) = email x"
proof (induction kwargs arbitrary: x)
  case Nil show ?case by simp
next
  case (Cons a kwargs) show ?case by (cases a) (simp_all add: Cons)
qed

lemma update_user_keeps_unique:
  assumes "update_user args kwargs rows = Inr rows'"
  shows "map user_id rows' = map user_id rows \<and> map email rows' = map email rows"
proof (cases args)
  case Nil
  with assms show ?thesis by (simp add: update_user_def)
next
  case (Cons uid rest)
  with assms show ?thesis
    by (cases rest) (auto simp: update_user_def assign_keeps_id_and_email)
qed

lemma register_user_keeps_unique:
  assumes "distinct (map user_id (db s))" "distinct (map email (db s))"
  shows "distinct (map user_id (db (snd (register_user B e p s)))) \<and>
         distinct (map email (db (snd (register_user B e p s))))"
proof (cases "find_user_by (email_is e) (db s)")
  case (Inr u)
  with assms show ?thesis by (simp add: register_user_def)
next
  case (Inl err)
  then have absent: "err = NoResultFound" "\<forall>u\<in>set (db s). email u \<noteq> e"
    by (auto simp: find_user_by_Inl list_ex_iff)
  have "fresh_id (db s) \<notin> user_id ` set (db s)"
    using fresh_id_above[of _ "db s"] by force
  with assms absent Inl show ?thesis
    by (auto simp: register_user_def hash_password_eq add_user_def Let_def split: sum.splits)
qed

section \<open>Rendering a UUID\<close>

lemma upt32:
  "[0..<32] = [0,1,2,3,4,5,6,7,8,9,10,11,12,13,14,15,16,17,18,19,20,21,22,23,24,25,26,27,28,29,30,31]"
  by (simp add: upt_rec)

lemma uuid4_str_0: "uuid4_str 0 = ''00000000-0000-4000-8000-000000000000''"
proof -
  have "uuid4_int 0 = 0x00000000000040008000000000000000"
    by (simp add: uuid4_int_def)
  then show ?thesis
    by (simp add: uuid4_str_def str_uuid_def hex32_def hex_digit_def upt32 drop_bit_eq_div)
qed

lemma uuid4_str_1: "uuid4_str 1 = ''00000000-0000-4000-8000-000000000001''"
proof -
  have "uuid4_int 1 = 0x00000000000040008000000000000001"
    by (simp add: uuid4_int_def)
  then show ?thesis
    by (simp add: uuid4_str_def str_uuid_def hex32_def hex_digit_def upt32 drop_bit_eq_div)
qed

lemma uuid4_str_2: "uuid4_str 2 = ''00000000-0000-4000-8000-000000000002''"
proof -
  have "uuid4_int 2 = 0x00000000000040008000000000000002"
    by (simp add: uuid4_int_def)
  then show ?thesis
    by (simp add: uuid4_str_def str_uuid_def hex32_def hex_digit_def upt32 drop_bit_eq_div)
qed

lemma length_hex32: "length (hex32 w) = 32"
  by (simp add: hex32_def)

lemma length_str_uuid: "length (str_uuid w) = 36"
  by (simp add: str_uuid_def Let_def length_hex32)

lemma uuid4_str_not_empty: "uuid4_str r \<noteq> []"
  using length_str_uuid[of "uuid4_int r"] by (auto simp: uuid4_str_def)

section \<open>register_user\<close>

text \<open>
  Registration does not succeed for every password: for an unused email and a password
  that holds a lone surrogate, \<open>password.encode()\<close> raises \<open>UnicodeEncodeError\<close>, and no
  row is inserted.
\<close>

theorem register_user_unencodable_counterexample:
  "db example_auth = [] \<and>
   register_user example_bcrypt ''a@x.com'' [0xDC80] example_auth =
     (Inl UnicodeEncodeError, example_auth\<lparr>reads := 1\<rparr>) \<and>
   db (snd (register_user example_bcrypt ''a@x.com'' [0xDC80] example_auth)) = []"
  by (simp add: register_user_def hash_password_eq encode_surrogate example_auth_def
        find_user_by_def)

text \<open>
  Claim C3, as the code has it. For every email and password, \<open>register_user\<close> raises
  \<open>ValueError("User <email> already exists")\<close> when a row of the table has that email, and
  leaves the state as it was. When no row has the email, it draws a salt; when
  \<open>password.encode()\<close> or \<open>bcrypt.hashpw\<close> raises, that exception leaves the method and the
  table is as it was; otherwise it appends one row with that email and the digest that
  \<open>hashpw\<close> returned, a fresh id, no session token and no reset token, leaves the rows
  that were there untouched, and returns the new row.
\<close>

theorem register_user_spec:
  "((\<exists>u\<in>set (db s). email u = e) \<longrightarrow>
      register_user B e p s = (Inl (ValueError (''User '' @ e @ '' already exists'')), s)) \<and>
   ((\<forall>u\<in>set (db s). email u \<noteq> e) \<longrightarrow>
      (case encode p of
         Inl err \<Rightarrow> register_user B e p s = (Inl err, s\<lparr>reads := Suc (reads s)\<rparr>)
       | Inr encoded \<Rightarrow>
           (case hashpw B encoded (urandom s (reads s)) of
              Inl err \<Rightarrow> register_user B e p s = (Inl err, s\<lparr>reads := Suc (reads s)\<rparr>)
            | Inr digest \<Rightarrow>
                (let new_user = \<lparr>user_id = fresh_id (db s), email = e,
                                   hashed_password = digest,
                                   session_id = None, reset_token = None\<rparr>
                 in register_user B e p s =
                      (Inr new_user, s\<lparr>db := db s @ [new_user], reads := Suc (reads s)\<rparr>) \<and>
                    user_id new_user \<notin> user_id ` set (db s)))))"
proof (intro conjI impI)
  assume "\<exists>u\<in>set (db s). email u = e"
  then obtain u where "find_user_by (email_is e) (db s) = Inr u"
    using email_present by blast
  then show "register_user B e p s = (Inl (ValueError (''User '' @ e @ '' already exists'')), s)"
    by (simp add: register_user_def)
next
  assume "\<forall>u\<in>set (db s). email u \<noteq> e"
  then have absent: "find_user_by (email_is e) (db s) = Inl NoResultFound"
    by (rule email_absent)
  have fresh: "fresh_id (db s) \<notin> user_id ` set (db s)"
    using fresh_id_above[of _ "db s"] by force
  show "case encode p of
         Inl err \<Rightarrow> register_user B e p s = (Inl err, s\<lparr>reads := Suc (reads s)\<rparr>)
       | Inr encoded \<Rightarrow>
           (case hashpw B encoded (urandom s (reads s)) of
              Inl err \<Rightarrow> register_user B e p s = (Inl err, s\<lparr>reads := Suc (reads s)\<rparr>)
            | Inr digest \<Rightarrow>
                (let new_user = \<lparr>user_id = fresh_id (db s), email = e,
                                   hashed_password = digest,
                                   session_id = None, reset_token = None\<rparr>
                 in register_user B e p s =
                      (Inr new_user, s\<lparr>db := db s @ [new_user], reads := Suc (reads s)\<rparr>) \<and>
                    user_id new_user \<notin> user_id ` set (db s)))"
  proof (cases "encode p")
    case (Inl err)
    with absent show ?thesis
      by (simp add: register_user_def hash_password_eq)
  next
    case (Inr encoded)
    show ?thesis
    proof (cases "hashpw B encoded (urandom s (reads s))")
      case (Inl err)
      with Inr absent show ?thesis
        by (simp add: register_user_def hash_password_eq)
    next
      case digest: (Inr digest)
      with Inr absent fresh show ?thesis
        by (simp add: register_user_def hash_password_eq add_user_def Let_def)
    qed
  qed
qed

theorem register_user_spec_witness:
  "register_user example_bcrypt ''a@x.com'' (ascii ''p1'') example_auth =
     (Inr example_user, example_registered) \<and>
   register_user example_bcrypt ''a@x.com'' (ascii ''p2'') example_registered =
     (Inl (ValueError ''User a@x.com already exists''), example_registered) \<and>
   register_user example_bcrypt ''b@x.com'' [0xDC80] example_registered =
     (Inl UnicodeEncodeError, example_registered\<lparr>reads := 2\<rparr>) \<and>
   register_user example_bcrypt ''b@x.com'' (ascii (replicate 73 CHR ''a'')) example_registered =
     (Inl (ValueError ''password cannot be longer than 72 bytes''),
      example_registered\<lparr>reads := 2\<rparr>)"
proof -
  have p1: "encode (ascii ''p1'') = Inr ''p1''"
    by (rule encode_ascii) simp
  have long: "encode (ascii (replicate 73 CHR ''a'')) = Inr (replicate 73 CHR ''a'')"
    by (rule encode_ascii) simp
  have 1: "register_user example_bcrypt ''a@x.com'' (ascii ''p1'') example_auth =
     (Inr example_user, example_registered)"
    using register_user_spec[of example_auth "''a@x.com''" example_bcrypt "ascii ''p1''"]
    by (simp add: p1 example_auth_def example_registered_def example_user_def example_bcrypt_def
          fresh_id_def Let_def)
  have 2: "register_user example_bcrypt ''a@x.com'' (ascii ''p2'') example_registered =
     (Inl (ValueError ''User a@x.com already exists''), example_registered)"
    using register_user_spec[of example_registered "''a@x.com''" example_bcrypt "ascii ''p2''"]
    by (simp add: example_registered_def example_user_def)
  have 3: "register_user example_bcrypt ''b@x.com'' [0xDC80] example_registered =
     (Inl UnicodeEncodeError, example_registered\<lparr>reads := 2\<rparr>)"
    using register_user_spec[of example_registered "''b@x.com''" example_bcrypt "[0xDC80]"]
    by (simp add: encode_surrogate example_registered_def example_user_def)
  have 4: "register_user example_bcrypt ''b@x.com'' (ascii (replicate 73 CHR ''a''))
       example_registered =
     (Inl (ValueError ''password cannot be longer than 72 bytes''),
      example_registered\<lparr>reads := 2\<rparr>)"
    using register_user_spec[of example_registered "''b@x.com''" example_bcrypt
        "ascii (replicate 73 CHR ''a'')"]
    by (simp add: long example_registered_def example_user_def example_bcrypt_def)
  from 1 2 3 4 show ?thesis by simp
qed

text \<open>
  Claim C10. When a row of the table already has the email, \<open>register_user\<close> raises
  before it hashes and before it writes: the whole state is returned as it was (the table,
  and the count of blocks read from the random source, so no salt was drawn), and the
  outcome does not depend on the password or on the hashing functions.
\<close>

theorem register_user_existing_no_effect:
  "\<exists>u\<in>set (db s). email u = e \<Longrightarrow>
     register_user B e p s = (Inl (ValueError (''User '' @ e @ '' already exists'')), s) \<and>
     register_user B' e p' s = register_user B e p s"
proof -
  assume "\<exists>u\<in>set (db s). email u = e"
  then obtain u where "find_user_by (email_is e) (db s) = Inr u"
    using email_present by blast
  then show ?thesis by (simp add: register_user_def)
qed

theorem register_user_existing_no_effect_witness:
  "(\<exists>u\<in>set (db example_registered). email u = ''a@x.com'') \<and>
   register_user example_bcrypt ''a@x.com'' (ascii ''p2'') example_registered =
     (Inl (ValueError ''User a@x.com already exists''), example_registered) \<and>
   register_user example_bcrypt ''a@x.com'' [0xDC80] example_registered =
     register_user example_bcrypt ''a@x.com'' (ascii ''p2'') example_registered \<and>
   reads (snd (register_user example_bcrypt ''a@x.com'' (ascii ''p2'') example_registered)) = 1 \<and>
   db (snd (register_user example_bcrypt ''a@x.com'' (ascii ''p2'') example_registered)) =
     [example_user]"
proof -
  have h: "\<exists>u\<in>set (db example_registered). email u = ''a@x.com''"
    by (simp add: example_registered_def example_user_def)
  show ?thesis
    using h
      register_user_existing_no_effect[OF h, of example_bcrypt "ascii ''p2''" example_bcrypt
        "[0xDC80]"]
    by (simp add: example_registered_def)
qed

section \<open>valid_login\<close>

text \<open>
  A login does not always return: for a registered email and a password that holds a lone
  surrogate, \<open>password.encode()\<close> raises \<open>UnicodeEncodeError\<close> before \<open>bcrypt.checkpw\<close> is
  called.
\<close>

theorem valid_login_unencodable_counterexample:
  "find_user_by (email_is ''a@x.com'') (db example_registered) = Inr example_user \<and>
   valid_login example_bcrypt ''a@x.com'' [0xDC80] example_registered =
     (Inl UnicodeEncodeError, example_registered)"
  by (simp add: valid_login_def encode_surrogate example_registered_def example_user_def
        find_user_by_def)

text \<open>
  Claim C4, as the code has it. For every email and password, \<open>valid_login\<close> returns
  \<open>False\<close>, raising nothing, when no row has the email. When a row has it, the lookup
  finds a row \<open>u\<close> with that email; then \<open>UnicodeEncodeError\<close> is raised when the password
  cannot be encoded, and otherwise the outcome is that of
  \<open>bcrypt.checkpw(password.encode(), u.hashed_password)\<close>: the boolean it returns, or
  the exception it raises (the handler would turn a \<open>NoResultFound\<close> into \<open>False\<close>). In
  every case the state is returned as it was.
\<close>

theorem valid_login_spec:
  "((\<forall>u\<in>set (db s). email u \<noteq> e) \<longrightarrow> valid_login B e p s = (Inr False, s)) \<and>
   ((\<exists>u\<in>set (db s). email u = e) \<longrightarrow>
      (\<exists>u. find_user_by (email_is e) (db s) = Inr u \<and> u \<in> set (db s) \<and> email u = e \<and>
           valid_login B e p s =
             (case encode p of
                Inl err \<Rightarrow> Inl err
              | Inr encoded \<Rightarrow>
                  (case checkpw B encoded (hashed_password u) of
                     Inr r \<Rightarrow> Inr r
                   | Inl err \<Rightarrow> if err = NoResultFound then Inr False else Inl err),
              s))) \<and>
   snd (valid_login B e p s) = s"
proof (intro conjI impI)
  assume "\<forall>u\<in>set (db s). email u \<noteq> e"
  then show "valid_login B e p s = (Inr False, s)"
    by (simp add: valid_login_def email_absent)
next
  assume "\<exists>u\<in>set (db s). email u = e"
  then obtain u where u: "find_user_by (email_is e) (db s) = Inr u" "u \<in> set (db s)" "email u = e"
    using email_present by blast
  have "valid_login B e p s =
             (case encode p of
                Inl err \<Rightarrow> Inl err
              | Inr encoded \<Rightarrow>
                  (case checkpw B encoded (hashed_password u) of
                     Inr r \<Rightarrow> Inr r
                   | Inl err \<Rightarrow> if err = NoResultFound then Inr False else Inl err),
              s)"
    using u(1) by (auto simp: valid_login_def split: sum.splits dest: encode_Inl)
  with u show "\<exists>u. find_user_by (email_is e) (db s) = Inr u \<and> u \<in> set (db s) \<and> email u = e \<and>
           valid_login B e p s =
             (case encode p of
                Inl err \<Rightarrow> Inl err
              | Inr encoded \<Rightarrow>
                  (case checkpw B encoded (hashed_password u) of
                     Inr r \<Rightarrow> Inr r
                   | Inl err \<Rightarrow> if err = NoResultFound then Inr False else Inl err),
              s)"
    by blast
next
  show "snd (valid_login B e p s) = s"
    by (simp add: valid_login_def Let_def split: sum.splits)
qed

theorem valid_login_spec_witness:
  "valid_login example_bcrypt ''b@x.com'' (ascii ''p1'') example_registered =
     (Inr False, example_registered) \<and>
   valid_login example_bcrypt ''a@x.com'' (ascii ''p1'') example_registered =
     (Inr True, example_registered) \<and>
   valid_login example_bcrypt ''a@x.com'' (ascii ''p1x'') example_registered =
     (Inr False, example_registered) \<and>
   valid_login example_bcrypt ''a@x.com'' [0xDC80] example_registered =
     (Inl UnicodeEncodeError, example_registered) \<and>
   valid_login example_bcrypt ''a@x.com'' (ascii (replicate 73 CHR ''a'')) example_registered =
     (Inl (ValueError ''password cannot be longer than 72 bytes''), example_registered)"
proof -
  have enc: "encode (ascii ''p1'') = Inr ''p1''" "encode (ascii ''p1x'') = Inr ''p1x''"
      "encode (ascii (replicate 73 CHR ''a'')) = Inr (replicate 73 CHR ''a'')"
    by (rule encode_ascii, simp)+
  show ?thesis
    using valid_login_spec[of example_registered "''b@x.com''" example_bcrypt "ascii ''p1''"]
          valid_login_spec[of example_registered "''a@x.com''" example_bcrypt "ascii ''p1''"]
          valid_login_spec[of example_registered "''a@x.com''" example_bcrypt "ascii ''p1x''"]
          valid_login_spec[of example_registered "''a@x.com''" example_bcrypt "[0xDC80]"]
          valid_login_spec[of example_registered "''a@x.com''" example_bcrypt
            "ascii (replicate 73 CHR ''a'')"]
    by (simp add: enc encode_surrogate example_registered_def example_user_def example_bcrypt_def
          find_user_by_def)
qed

section \<open>update_password\<close>

text \<open>
  Claim C7. For every reset token that is the \<open>reset_token\<close> of no row of the table,
  \<open>update_password\<close> raises \<open>ValueError("Invalid reset token")\<close>, and the state is as it
  was.
\<close>

theorem update_password_unknown_token:
  "\<forall>u\<in>set (db s). reset_token u \<noteq> Some token \<Longrightarrow>
     update_password B token password s = (Inl (ValueError ''Invalid reset token''), s)"
proof -
  assume "\<forall>u\<in>set (db s). reset_token u \<noteq> Some token"
  then have "find_user_by (reset_token_is token) (db s) = Inl NoResultFound"
    by (intro find_user_by_absent) (simp add: list_ex_iff)
  then show ?thesis by (simp add: update_password_def)
qed

theorem update_password_unknown_token_witness:
  "map reset_token (db example_registered) = [None] \<and>
   update_password example_bcrypt ''no-such-token'' (ascii ''p2'') example_registered =
     (Inl (ValueError ''Invalid reset token''), example_registered)"
proof -
  have h: "\<forall>u\<in>set (db example_registered). reset_token u \<noteq> Some ''no-such-token''"
    by (simp add: example_registered_def example_user_def)
  show ?thesis
    using update_password_unknown_token[OF h, of example_bcrypt "ascii ''p2''"]
    by (simp add: example_registered_def example_user_def)
qed

section \<open>get_user_from_session_id\<close>

text \<open>
  Claim C5. \<open>get_user_from_session_id\<close> returns \<open>None\<close> for the session id \<open>None\<close>
  and for the empty string, whatever the table holds (the result is the same in any two
  states, so the table is not consulted). For a non-empty session id it returns \<open>None\<close>
  when no row has that session id, and otherwise the row that the lookup by session id
  finds, which has that session id. In every case the state is returned as it was.
\<close>

theorem get_user_from_session_id_spec:
  "get_user_from_session_id None s = (Inr None, s) \<and>
   get_user_from_session_id (Some []) s = (Inr None, s) \<and>
   fst (get_user_from_session_id None s) = fst (get_user_from_session_id None s') \<and>
   fst (get_user_from_session_id (Some []) s) = fst (get_user_from_session_id (Some []) s') \<and>
   (t \<noteq> [] \<and> (\<forall>u\<in>set (db s). session_id u \<noteq> Some t) \<longrightarrow>
      get_user_from_session_id (Some t) s = (Inr None, s)) \<and>
   (t \<noteq> [] \<and> (\<exists>u\<in>set (db s). session_id u = Some t) \<longrightarrow>
      (\<exists>u. find_user_by (session_id_is t) (db s) = Inr u \<and> u \<in> set (db s) \<and>
           session_id u = Some t \<and>
           get_user_from_session_id (Some t) s = (Inr (Some u), s))) \<and>
   snd (get_user_from_session_id sid s) = s"
proof (intro conjI impI)
  show "get_user_from_session_id None s = (Inr None, s)"
    by (simp add: get_user_from_session_id_def)
  show "get_user_from_session_id (Some []) s = (Inr None, s)"
    by (simp add: get_user_from_session_id_def)
  show "fst (get_user_from_session_id None s) = fst (get_user_from_session_id None s')"
    by (simp add: get_user_from_session_id_def)
  show "fst (get_user_from_session_id (Some []) s) = fst (get_user_from_session_id (Some []) s')"
    by (simp add: get_user_from_session_id_def)
next
  assume "t \<noteq> [] \<and> (\<forall>u\<in>set (db s). session_id u \<noteq> Some t)"
  then show "get_user_from_session_id (Some t) s = (Inr None, s)"
    by (simp add: get_user_from_session_id_def session_absent)
next
  assume a: "t \<noteq> [] \<and> (\<exists>u\<in>set (db s). session_id u = Some t)"
  then obtain u where "find_user_by (session_id_is t) (db s) = Inr u" "u \<in> set (db s)"
      "session_id u = Some t"
    using session_present by blast
  with a show "\<exists>u. find_user_by (session_id_is t) (db s) = Inr u \<and> u \<in> set (db s) \<and>
           session_id u = Some t \<and>
           get_user_from_session_id (Some t) s = (Inr (Some u), s)"
    by (simp add: get_user_from_session_id_def)
next
  show "snd (get_user_from_session_id sid s) = s"
  proof (cases sid)
    case None
    then show ?thesis by (simp add: get_user_from_session_id_def)
  next
    case (Some t)
    then show ?thesis
      by (cases "find_user_by (session_id_is t) (db s)")
         (simp_all add: get_user_from_session_id_def)
  qed
qed

theorem get_user_from_session_id_spec_witness:
  "get_user_from_session_id (Some ''s-0'') example_session = (Inr None, example_session) \<and>
   get_user_from_session_id (Some ''s-1'') example_session =
     (Inr (Some (example_user\<lparr>session_id := Some ''s-1''\<rparr>)), example_session)"
  using get_user_from_session_id_spec[of example_session example_session "''s-0''" None]
        get_user_from_session_id_spec[of example_session example_session "''s-1''" None]
  by (simp add: example_session_def example_user_def find_user_by_def)

section \<open>destroy_session\<close>

text \<open>
  Claim C8. For every id, \<open>destroy_session\<close> raises nothing and sets the session id of
  the rows with that id to \<open>None\<close>, leaving every other row and field as it was; when no
  row has the id, or the row has no session, the state is unchanged; and a second call
  right after the first has the same result and leaves the same state as the first.
\<close>

theorem destroy_session_spec:
  "destroy_session uid s =
     (Inr (), s\<lparr>db := map (\<lambda>u. if user_id u = uid then u\<lparr>session_id := None\<rparr> else u) (db s)\<rparr>) \<and>
   (uid \<notin> user_id ` set (db s) \<longrightarrow> destroy_session uid s = (Inr (), s)) \<and>
   destroy_session uid (snd (destroy_session uid s)) = destroy_session uid s"
proof (intro conjI impI)
  show 1: "destroy_session uid s =
     (Inr (), s\<lparr>db := map (\<lambda>u. if user_id u = uid then u\<lparr>session_id := None\<rparr> else u) (db s)\<rparr>)"
    by (simp add: destroy_session_def update_user_session_id)
  show "destroy_session uid (snd (destroy_session uid s)) = destroy_session uid s"
    by (simp add: destroy_session_def update_user_session_id comp_def)
next
  assume "uid \<notin> user_id ` set (db s)"
  then have "map (\<lambda>u. if user_id u = uid then u\<lparr>session_id := None\<rparr> else u) (db s) = db s"
    by (intro map_idI) auto
  then show "destroy_session uid s = (Inr (), s)"
    by (simp add: destroy_session_def update_user_session_id)
qed

theorem destroy_session_spec_witness:
  "destroy_session 1 example_session = (Inr (), example_registered\<lparr>reads := 2\<rparr>) \<and>
   destroy_session 1 (example_registered\<lparr>reads := 2\<rparr>) = (Inr (), example_registered\<lparr>reads := 2\<rparr>) \<and>
   destroy_session 7 example_session = (Inr (), example_session)"
  using destroy_session_spec[of 1 example_session] destroy_session_spec[of 7 example_session]
        destroy_session_spec[of 1 "example_registered\<lparr>reads := 2\<rparr>"]
  by (simp add: example_session_def example_registered_def example_user_def)

section \<open>get_reset_password_token\<close>



section \<open>create_session\<close>

lemma create_session_twice_resolves:
  assumes found: "find_user_by (email_is e) (db s) = Inr u"
  shows "get_user_from_session_id (Some (uuid4_str (urandom s (reads s))))
             (snd (create_session e (snd (create_session e s)))) =
           (Inr None, snd (create_session e (snd (create_session e s)))) \<longleftrightarrow>
         uuid4_str (urandom s (reads s)) \<noteq> uuid4_str (urandom s (Suc (reads s))) \<and>
         (\<forall>x\<in>set (db s). user_id x \<noteq> user_id u \<longrightarrow>
            session_id x \<noteq> Some (uuid4_str (urandom s (reads s))))"
proof -
  let ?t1 = "uuid4_str (urandom s (reads s))"
  let ?t2 = "uuid4_str (urandom s (Suc (reads s)))"
  let ?s1 = "snd (create_session e s)"
  let ?s2 = "snd (create_session e ?s1)"
  have u_in: "u \<in> set (db s)"
    using find_user_by_Inr[OF found] by simp
  have s1: "db ?s1 = map (\<lambda>x. if user_id x = user_id u then x\<lparr>session_id := Some ?t1\<rparr> else x) (db s)"
      "reads ?s1 = Suc (reads s)" "urandom ?s1 = urandom s"
    by (simp_all add: create_session_found[OF found])
  have found1: "find_user_by (email_is e) (db ?s1) = Inr (u\<lparr>session_id := Some ?t1\<rparr>)"
    unfolding s1 by (rule find_by_email_after_session_update[OF found])
  have "db ?s2 =
          map (\<lambda>x. if user_id x = user_id u then x\<lparr>session_id := Some ?t2\<rparr> else x) (db ?s1)"
    by (simp add: create_session_found[OF found1] s1(2,3))
  then have db2: "db ?s2 =
          map (\<lambda>x. if user_id x = user_id u then x\<lparr>session_id := Some ?t2\<rparr> else x) (db s)"
    unfolding s1 by (simp add: comp_def if_distrib cong: if_cong)
  have none_iff: "get_user_from_session_id (Some ?t1) ?s2 = (Inr None, ?s2) \<longleftrightarrow>
      \<not> list_ex (matches (session_id_is ?t1)) (db ?s2)"
  proof (cases "find_user_by (session_id_is ?t1) (db ?s2)")
    case (Inl err)
    then have "err = NoResultFound" "\<not> list_ex (matches (session_id_is ?t1)) (db ?s2)"
      by (simp_all add: find_user_by_Inl)
    with Inl show ?thesis
      by (simp add: get_user_from_session_id_def)
  next
    case (Inr v)
    then have "list_ex (matches (session_id_is ?t1)) (db ?s2)"
      using find_user_by_Inr[OF Inr] by (auto simp: list_ex_iff)
    with Inr show ?thesis
      by (simp add: get_user_from_session_id_def uuid4_str_not_empty)
  qed
  have "list_ex (matches (session_id_is ?t1)) (db ?s2) \<longleftrightarrow>
      (\<exists>x\<in>set (db s).
         matches (session_id_is ?t1)
           (if user_id x = user_id u then x\<lparr>session_id := Some ?t2\<rparr> else x))"
    unfolding db2 list_ex_iff set_map bex_simps ..
  also have "\<dots> \<longleftrightarrow>
      (\<exists>x\<in>set (db s). if user_id x = user_id u then ?t2 = ?t1 else session_id x = Some ?t1)"
    by (rule bex_cong[OF refl]) simp
  finally have "\<not> list_ex (matches (session_id_is ?t1)) (db ?s2) \<longleftrightarrow>
      (\<forall>x\<in>set (db s). if user_id x = user_id u then ?t2 \<noteq> ?t1 else session_id x \<noteq> Some ?t1)"
    by (simp split: if_splits)
  also have "\<dots> \<longleftrightarrow> ?t1 \<noteq> ?t2 \<and>
         (\<forall>x\<in>set (db s). user_id x \<noteq> user_id u \<longrightarrow> session_id x \<noteq> Some ?t1)"
    using u_in by auto
  finally show ?thesis using none_iff by simp
qed

text \<open>
  A second session does not always end the first. With a random source that repeats a
  block, the second call of \<open>create_session\<close> returns the token of the first, and
  \<open>get_user_from_session_id\<close> of the first token still returns the row.
\<close>

theorem create_session_repeated_token_counterexample:
  "create_session ''a@x.com'' example_stuck =
     (Inr (Some ''00000000-0000-4000-8000-000000000000''),
      example_stuck\<lparr>db := [example_user\<lparr>session_id := Some ''00000000-0000-4000-8000-000000000000''\<rparr>],
                    reads := 1\<rparr>) \<and>
   create_session ''a@x.com''
       (example_stuck\<lparr>db := [example_user\<lparr>session_id := Some ''00000000-0000-4000-8000-000000000000''\<rparr>],
                     reads := 1\<rparr>) =
     (Inr (Some ''00000000-0000-4000-8000-000000000000''),
      example_stuck\<lparr>db := [example_user\<lparr>session_id := Some ''00000000-0000-4000-8000-000000000000''\<rparr>],
                    reads := 2\<rparr>) \<and>
   get_user_from_session_id (Some ''00000000-0000-4000-8000-000000000000'')
       (example_stuck\<lparr>db := [example_user\<lparr>session_id := Some ''00000000-0000-4000-8000-000000000000''\<rparr>],
                     reads := 2\<rparr>) =
     (Inr (Some (example_user\<lparr>session_id := Some ''00000000-0000-4000-8000-000000000000''\<rparr>)),
      example_stuck\<lparr>db := [example_user\<lparr>session_id := Some ''00000000-0000-4000-8000-000000000000''\<rparr>],
                    reads := 2\<rparr>)"
  by (simp add: create_session_def generate_uuid_def os_urandom16_def update_user_session_id
        get_user_from_session_id_def find_user_by_def example_stuck_def example_user_def
        uuid4_str_0)

text \<open>
  Claim C2, as the code has it. For every email, \<open>create_session\<close> returns \<open>None\<close>,
  raising nothing and changing nothing, when no row has the email. When a row has it, the
  method reads the next block of the random source, makes the token
  \<open>str(uuid.uuid4())\<close> of it without comparing it with the tokens of the table, stores it
  as the \<open>session_id\<close> of the row that the lookup found, over whatever session id the row
  held, and returns it: the row holds that one session id. A second call for the same
  email stores and returns the token of the following block, and then
  \<open>get_user_from_session_id\<close> of the first token returns \<open>None\<close> exactly when the two
  tokens differ and no row with another id holds the first token.
\<close>

theorem create_session_spec:
  "((\<forall>u\<in>set (db s). email u \<noteq> e) \<longrightarrow> create_session e s = (Inr None, s)) \<and>
   ((\<exists>u\<in>set (db s). email u = e) \<longrightarrow>
      (\<exists>u. find_user_by (email_is e) (db s) = Inr u \<and> u \<in> set (db s) \<and> email u = e \<and>
         (let t1 = uuid4_str (urandom s (reads s));
              t2 = uuid4_str (urandom s (Suc (reads s)));
              s1 = snd (create_session e s);
              s2 = snd (create_session e s1)
          in create_session e s =
               (Inr (Some t1),
                s\<lparr>db := map (\<lambda>x. if user_id x = user_id u
                                   then x\<lparr>session_id := Some t1\<rparr> else x) (db s),
                  reads := Suc (reads s)\<rparr>) \<and>
             find_user_by (email_is e) (db s1) = Inr (u\<lparr>session_id := Some t1\<rparr>) \<and>
             (distinct (map user_id (db s)) \<longrightarrow>
                db s1 = map (\<lambda>x. if x = u then x\<lparr>session_id := Some t1\<rparr> else x) (db s)) \<and>
             fst (create_session e s1) = Inr (Some t2) \<and>
             find_user_by (email_is e) (db s2) = Inr (u\<lparr>session_id := Some t2\<rparr>) \<and>
             (get_user_from_session_id (Some t1) s2 = (Inr None, s2) \<longleftrightarrow>
                t1 \<noteq> t2 \<and>
                (\<forall>x\<in>set (db s). user_id x \<noteq> user_id u \<longrightarrow> session_id x \<noteq> Some t1)))))"
proof (intro conjI impI)
  assume "\<forall>u\<in>set (db s). email u \<noteq> e"
  then show "create_session e s = (Inr None, s)"
    by (simp add: create_session_def email_absent)
next
  assume "\<exists>u\<in>set (db s). email u = e"
  then obtain u where u: "find_user_by (email_is e) (db s) = Inr u" "u \<in> set (db s)" "email u = e"
    using email_present by blast
  let ?t1 = "uuid4_str (urandom s (reads s))"
  let ?t2 = "uuid4_str (urandom s (Suc (reads s)))"
  let ?s1 = "snd (create_session e s)"
  let ?s2 = "snd (create_session e ?s1)"
  have c1: "create_session e s =
               (Inr (Some ?t1),
                s\<lparr>db := map (\<lambda>x. if user_id x = user_id u
                                   then x\<lparr>session_id := Some ?t1\<rparr> else x) (db s),
                  reads := Suc (reads s)\<rparr>)"
    by (rule create_session_found[OF u(1)])
  have s1: "db ?s1 = map (\<lambda>x. if user_id x = user_id u then x\<lparr>session_id := Some ?t1\<rparr> else x) (db s)"
      "reads ?s1 = Suc (reads s)" "urandom ?s1 = urandom s"
    by (simp_all add: c1)
  have f1: "find_user_by (email_is e) (db ?s1) = Inr (u\<lparr>session_id := Some ?t1\<rparr>)"
    unfolding s1 by (rule find_by_email_after_session_update[OF u(1)])
  have d1: "distinct (map user_id (db s)) \<longrightarrow>
              db ?s1 = map (\<lambda>x. if x = u then x\<lparr>session_id := Some ?t1\<rparr> else x) (db s)"
    unfolding s1 using u(2) by (simp add: update_only_found)
  have c2: "create_session e ?s1 =
              (Inr (Some ?t2),
               ?s1\<lparr>db := map (\<lambda>x. if user_id x = user_id u
                                   then x\<lparr>session_id := Some ?t2\<rparr> else x) (db ?s1),
                  reads := Suc (reads ?s1)\<rparr>)"
    using create_session_found[OF f1] by (simp add: s1(2,3))
  have f2: "find_user_by (email_is e) (db ?s2) = Inr (u\<lparr>session_id := Some ?t2\<rparr>)"
    using find_by_email_after_session_update[OF f1, of "Some ?t2"] by (simp add: c2)
  have inv: "get_user_from_session_id (Some ?t1) ?s2 = (Inr None, ?s2) \<longleftrightarrow>
                ?t1 \<noteq> ?t2 \<and>
                (\<forall>x\<in>set (db s). user_id x \<noteq> user_id u \<longrightarrow> session_id x \<noteq> Some ?t1)"
    by (rule create_session_twice_resolves[OF u(1)])
  show "\<exists>u. find_user_by (email_is e) (db s) = Inr u \<and> u \<in> set (db s) \<and> email u = e \<and>
         (let t1 = uuid4_str (urandom s (reads s));
              t2 = uuid4_str (urandom s (Suc (reads s)));
              s1 = snd (create_session e s);
              s2 = snd (create_session e s1)
          in create_session e s =
               (Inr (Some t1),
                s\<lparr>db := map (\<lambda>x. if user_id x = user_id u
                                   then x\<lparr>session_id := Some t1\<rparr> else x) (db s),
                  reads := Suc (reads s)\<rparr>) \<and>
             find_user_by (email_is e) (db s1) = Inr (u\<lparr>session_id := Some t1\<rparr>) \<and>
             (distinct (map user_id (db s)) \<longrightarrow>
                db s1 = map (\<lambda>x. if x = u then x\<lparr>session_id := Some t1\<rparr> else x) (db s)) \<and>
             fst (create_session e s1) = Inr (Some t2) \<and>
             find_user_by (email_is e) (db s2) = Inr (u\<lparr>session_id := Some t2\<rparr>) \<and>
             (get_user_from_session_id (Some t1) s2 = (Inr None, s2) \<longleftrightarrow>
                t1 \<noteq> t2 \<and>
                (\<forall>x\<in>set (db s). user_id x \<noteq> user_id u \<longrightarrow> session_id x \<noteq> Some t1)))"
    unfolding Let_def
    apply (rule exI[of _ u])
    apply (intro conjI)
            apply (rule u(1))
           apply (rule u(2))
          apply (rule u(3))
         apply (rule c1)
        apply (rule f1)
       apply (rule d1)
      apply (simp add: c2)
     apply (rule f2)
    apply (rule inv)
    done
qed

theorem create_session_spec_witness:
  "create_session ''b@x.com'' example_registered = (Inr None, example_registered) \<and>
   create_session ''a@x.com'' example_registered =
     (Inr (Some ''00000000-0000-4000-8000-000000000001''), example_session1) \<and>
   create_session ''a@x.com'' example_session1 =
     (Inr (Some ''00000000-0000-4000-8000-000000000002''), example_session2) \<and>
   get_user_from_session_id (Some ''00000000-0000-4000-8000-000000000001'') example_session2 =
     (Inr None, example_session2)"
proof -
  have 1: "create_session ''a@x.com'' example_registered =
     (Inr (Some ''00000000-0000-4000-8000-000000000001''), example_session1)"
    using create_session_spec[of example_registered "''a@x.com''"]
    by (simp add: example_registered_def example_session1_def example_user_def find_user_by_def
        Let_def uuid4_str_1)
  have 2: "create_session ''a@x.com'' example_session1 =
     (Inr (Some ''00000000-0000-4000-8000-000000000002''), example_session2)"
    using create_session_spec[of example_session1 "''a@x.com''"]
    by (simp add: example_session1_def example_session2_def example_user_def find_user_by_def
        Let_def uuid4_str_2 numeral_3_eq_3)
  have 3: "urandom example_registered (reads example_registered) = 1"
     "urandom example_registered (Suc (reads example_registered)) = 2"
    by (simp_all add: example_registered_def)
  have 4: "\<forall>x\<in>set (db example_registered).
             session_id x \<noteq> Some ''00000000-0000-4000-8000-000000000001''"
    by (simp add: example_registered_def example_user_def)
  have 5: "\<exists>u\<in>set (db example_registered). email u = ''a@x.com''"
    by (simp add: example_registered_def example_user_def)
  have "get_user_from_session_id (Some ''00000000-0000-4000-8000-000000000001'') example_session2 =
     (Inr None, example_session2)"
    using create_session_spec[of example_registered "''a@x.com''"] 4 5
    unfolding Let_def 1 2 3 uuid4_str_1 uuid4_str_2 snd_conv
    by auto
  moreover have "create_session ''b@x.com'' example_registered = (Inr None, example_registered)"
    using create_session_spec[of example_registered "''b@x.com''"]
    by (simp add: example_registered_def example_user_def)
  ultimately show ?thesis using 1 2 by simp
qed

section \<open>update_password with a token that matches\<close>

lemma update_password_found:
  "find_user_by (reset_token_is token) (db s) = Inr u \<Longrightarrow>
     encode password = Inr encoded \<Longrightarrow>
     hashpw B encoded (urandom s (reads s)) = Inr digest \<Longrightarrow>
     update_password B token password s = (Inl TypeError, s\<lparr>reads := Suc (reads s)\<rparr>)"
  by (simp add: update_password_def hash_password_eq update_user_none)

lemma update_password_found_raises:
  "find_user_by (reset_token_is token) (db s) = Inr u \<Longrightarrow>
     \<exists>e. update_password B token password s = (Inl e, s\<lparr>reads := Suc (reads s)\<rparr>)"
  by (simp add: update_password_def hash_password_eq update_user_none split: sum.splits)

text \<open>
  Claim C1 says that \<open>update_password\<close> with the reset token of a row stores the digest
  of the new password and clears the token in one update, returns nothing, and that the
  token is then spent. The code does not do that. Evaluated on the state reached by
  \<open>register_user("a@x.com", "p1")\<close> and \<open>get_reset_password_token("a@x.com")\<close>, with the
  token that call returned: \<open>update_password\<close> raises \<open>TypeError\<close>; the row keeps its
  old digest and its reset token (only the salt was drawn from the random source); the
  old password still logs in and the new one does not; and a second call with the same
  token raises \<open>TypeError\<close> again, not \<open>ValueError("Invalid reset token")\<close>.
\<close>

theorem update_password_valid_token_raises:
  "get_reset_password_token ''a@x.com'' example_registered =
     (Inr ''00000000-0000-4000-8000-000000000001'', example_reset) \<and>
   update_password example_bcrypt ''00000000-0000-4000-8000-000000000001'' (ascii ''p2'')
       example_reset =
     (Inl TypeError, example_reset\<lparr>reads := 3\<rparr>) \<and>
   find_user_by (email_is ''a@x.com'') (db (example_reset\<lparr>reads := 3\<rparr>)) =
     Inr (example_user\<lparr>reset_token := Some ''00000000-0000-4000-8000-000000000001''\<rparr>) \<and>
   valid_login example_bcrypt ''a@x.com'' (ascii ''p2'') (example_reset\<lparr>reads := 3\<rparr>) =
     (Inr False, example_reset\<lparr>reads := 3\<rparr>) \<and>
   valid_login example_bcrypt ''a@x.com'' (ascii ''p1'') (example_reset\<lparr>reads := 3\<rparr>) =
     (Inr True, example_reset\<lparr>reads := 3\<rparr>) \<and>
   update_password example_bcrypt ''00000000-0000-4000-8000-000000000001'' (ascii ''p3'')
       (example_reset\<lparr>reads := 3\<rparr>) =
     (Inl TypeError, example_reset\<lparr>reads := 4\<rparr>)"
proof -
  have enc: "encode (ascii ''p1'') = Inr ''p1''" "encode (ascii ''p2'') = Inr ''p2''"
      "encode (ascii ''p3'') = Inr ''p3''"
    by (rule encode_ascii, simp)+
  have hp: "hashpw example_bcrypt ''p2'' salt = Inr ''$2b$p2''"
      "hashpw example_bcrypt ''p3'' salt = Inr ''$2b$p3''" for salt
    by (simp_all add: example_bcrypt_def)
  have found: "find_user_by (reset_token_is ''00000000-0000-4000-8000-000000000001'') (db example_reset) =
      Inr (example_user\<lparr>reset_token := Some ''00000000-0000-4000-8000-000000000001''\<rparr>)"
    by (simp add: example_reset_def find_user_by_def)
  have found': "find_user_by (reset_token_is ''00000000-0000-4000-8000-000000000001'')
        (db (example_reset\<lparr>reads := 3\<rparr>)) =
      Inr (example_user\<lparr>reset_token := Some ''00000000-0000-4000-8000-000000000001''\<rparr>)"
    by (simp add: example_reset_def find_user_by_def)
  have r: "reads example_reset = 2" by (simp add: example_reset_def)
  have 1: "get_reset_password_token ''a@x.com'' example_registered =
     (Inr ''00000000-0000-4000-8000-000000000001'', example_reset)"
    by (simp add: get_reset_password_token_def example_registered_def example_reset_def
          example_user_def find_user_by_def os_urandom16_def update_user_reset_token uuid4_str_1
          Let_def)
  have 2: "update_password example_bcrypt ''00000000-0000-4000-8000-000000000001'' (ascii ''p2'')
       example_reset = (Inl TypeError, example_reset\<lparr>reads := 3\<rparr>)"
    by (simp add: update_password_found[OF found enc(2) hp(1)] r)
  have 3: "update_password example_bcrypt ''00000000-0000-4000-8000-000000000001'' (ascii ''p3'')
       (example_reset\<lparr>reads := 3\<rparr>) = (Inl TypeError, example_reset\<lparr>reads := 4\<rparr>)"
    by (simp add: update_password_found[OF found' enc(3) hp(2)])
  have 4: "find_user_by (email_is ''a@x.com'') (db (example_reset\<lparr>reads := 3\<rparr>)) =
     Inr (example_user\<lparr>reset_token := Some ''00000000-0000-4000-8000-000000000001''\<rparr>)"
    by (simp add: example_reset_def example_user_def find_user_by_def)
  have 5: "valid_login example_bcrypt ''a@x.com'' (ascii ''p2'') (example_reset\<lparr>reads := 3\<rparr>) =
     (Inr False, example_reset\<lparr>reads := 3\<rparr>)"
    using 4 by (simp add: valid_login_def enc example_bcrypt_def example_user_def)
  have 6: "valid_login example_bcrypt ''a@x.com'' (ascii ''p1'') (example_reset\<lparr>reads := 3\<rparr>) =
     (Inr True, example_reset\<lparr>reads := 3\<rparr>)"
    using 4 by (simp add: valid_login_def enc example_bcrypt_def example_user_def)
  show ?thesis using 1 2 3 4 5 6 by simp
qed

section \<open>The token generator\<close>

subsection \<open>The bits of a version-4 UUID\<close>

lemma bit_single_bit: "bit (single_bit k) n \<longleftrightarrow> n = k \<and> k < 128"
  by (auto simp: single_bit_def bit_simps)

lemma uuid4_consts:
  "push_bit 48 (0xc000 :: 128 word) = single_bit 62 OR single_bit 63"
  "push_bit 48 (0x8000 :: 128 word) = single_bit 63"
  "push_bit 64 (0xf000 :: 128 word) = single_bit 76 OR single_bit 77 OR single_bit 78 OR single_bit 79"
  "push_bit 76 (4 :: 128 word) = single_bit 78"
  by (simp_all add: single_bit_def)

lemma bit_uuid4_int:
  "bit (uuid4_int r) n \<longleftrightarrow>
     (if n = 63 \<or> n = 78 then True
      else if n = 62 \<or> n = 76 \<or> n = 77 \<or> n = 79 then False
      else bit r n)"
  unfolding uuid4_int_def uuid4_consts
  by (auto simp: bit_simps bit_single_bit dest: bit_imp_le_length)

lemma uuid4_collision: "uuid4_int 0 = uuid4_int (single_bit 62)"
  by (rule bit_eqI) (auto simp: bit_uuid4_int bit_single_bit)

subsection \<open>Counting the words with some bits fixed\<close>

lemma bit_flip_other: "n \<noteq> k \<Longrightarrow> bit (flip_bit k w) n = bit (w :: 128 word) n"
  by (auto simp: bit_flip_bit_iff dest: bit_imp_le_length)

lemma bit_flip_same: "k < 128 \<Longrightarrow> bit (flip_bit k w) k = (\<not> bit (w :: 128 word) k)"
  by (simp add: bit_flip_bit_iff)

lemma flip_flip: "flip_bit k (flip_bit k w) = (w :: 128 word)"
  by (rule bit_eqI) (auto simp: bit_flip_bit_iff)

lemma card_halve:
  fixes S :: "128 word set"
  assumes k: "k < 128" and inv: "\<And>w. w \<in> S \<Longrightarrow> flip_bit k w \<in> S"
  shows "card {w \<in> S. bit w k = b} * 2 = card S"
proof -
  let ?A = "{w \<in> S. bit w k = b}" and ?B = "{w \<in> S. bit w k \<noteq> b}"
  have "bij_betw (flip_bit k) ?A ?B"
  proof (rule bij_betw_byWitness[where f' = "flip_bit k"])
    show "\<forall>a\<in>?A. flip_bit k (flip_bit k a) = a" by (simp add: flip_flip)
    show "\<forall>a'\<in>?B. flip_bit k (flip_bit k a') = a'" by (simp add: flip_flip)
    show "flip_bit k ` ?A \<subseteq> ?B" using inv k by (auto simp: bit_flip_same)
    show "flip_bit k ` ?B \<subseteq> ?A" using inv k by (auto simp: bit_flip_same)
  qed
  then have eq: "card ?A = card ?B" by (rule bij_betw_same_card)
  have "S = ?A \<union> ?B" "?A \<inter> ?B = {}" by auto
  then have "card S = card ?A + card ?B"
    by (metis (no_types, lifting) card_Un_disjoint finite_code)
  with eq show ?thesis by simp
qed

lemma fits_flip:
  "k \<notin> fst ` set ps \<Longrightarrow> fits ps w \<Longrightarrow> fits ps (flip_bit k w)"
proof -
  assume k: "k \<notin> fst ` set ps" and f: "fits ps w"
  have "bit (flip_bit k w) a = b" if "(a, b) \<in> set ps" for a b
  proof -
    from that k have "a \<noteq> k" by force
    moreover from that f have "bit w a = b" by (auto simp: fits_def list_all_iff)
    ultimately show ?thesis by (simp add: bit_flip_other)
  qed
  then show ?thesis by (auto simp: fits_def list_all_iff)
qed

lemma card_fits:
  "distinct (map fst ps) \<Longrightarrow> \<forall>k \<in> fst ` set ps. k < 128 \<Longrightarrow>
     card {w. fits ps w} * 2 ^ length ps = 2 ^ 128"
proof (induction ps)
  case Nil
  have "{w. fits [] w} = (UNIV :: 128 word set)" by (simp add: fits_def)
  then show ?case by (simp add: card_word)
next
  case (Cons p ps)
  obtain k b where p: "p = (k, b)" by (cases p)
  from Cons.prems p have k: "k < 128" "k \<notin> fst ` set ps" by auto
  have split: "{w. fits (p # ps) w} = {w \<in> {w. fits ps w}. bit w k = b}"
    by (auto simp: fits_def p)
  have half: "card {w \<in> {w. fits ps w}. bit w k = b} * 2 = card {w. fits ps w}"
    by (rule card_halve[OF k(1)]) (simp add: fits_flip[OF k(2)])
  have IH: "card {w. fits ps w} * 2 ^ length ps = 2 ^ 128"
    using Cons by simp
  have "card {w \<in> {w. fits ps w}. bit w k = b} * 2 ^ length (p # ps) =
        (card {w \<in> {w. fits ps w}. bit w k = b} * 2) * 2 ^ length ps"
    by simp
  also have "\<dots> = 2 ^ 128" unfolding half by (rule IH)
  finally show ?case unfolding split .
qed

lemma range_uuid4_int: "range uuid4_int = {w. fits fixed_bits w}"
proof (intro set_eqI iffI)
  fix w assume "w \<in> range uuid4_int"
  then show "w \<in> {w. fits fixed_bits w}"
    by (auto simp: fits_def fixed_bits_def bit_uuid4_int)
next
  fix w assume "w \<in> {w. fits fixed_bits w}"
  then have "uuid4_int w = w"
    by (intro bit_eqI) (auto simp: fits_def fixed_bits_def bit_uuid4_int)
  then show "w \<in> range uuid4_int" by (metis rangeI)
qed

lemma card_range_uuid4_int: "card (range uuid4_int) = 2 ^ 122"
proof -
  have "card {w. fits fixed_bits w} * 2 ^ length fixed_bits = 2 ^ 128"
    by (rule card_fits) (simp_all add: fixed_bits_def)
  then have "card (range uuid4_int) * 2 ^ 6 = (2 ^ 122 :: nat) * 2 ^ 6"
    by (simp add: range_uuid4_int fixed_bits_def)
  then show ?thesis by (simp only: mult_cancel2) simp
qed

subsection \<open>The string of a UUID determines it\<close>

lemma hex_digit_inj: "a < 16 \<Longrightarrow> b < 16 \<Longrightarrow> hex_digit a = hex_digit b \<Longrightarrow> a = b"
proof -
  have d: "distinct ''0123456789abcdef''" by simp
  assume "a < 16" "b < 16" "hex_digit a = hex_digit b"
  then show "a = b"
    using nth_eq_iff_index_eq[OF d, of a b] by (simp add: hex_digit_def)
qed

lemma fifteen: "(15 :: 128 word) = mask 4"
  by (simp add: mask_eq_exp_minus_1)

lemma nibble_less: "unat (drop_bit k w AND (15 :: 128 word)) < 16"
proof -
  have "unat (drop_bit k w AND 15) \<le> unat (15 :: 128 word)"
    by (rule word_and_le1 [THEN word_le_nat_alt [THEN iffD1]])
  then show ?thesis by simp
qed

lemma hex32_nibbles:
  assumes "hex32 w = hex32 w'" "j < 32"
  shows "drop_bit (4 * j) w AND 15 = drop_bit (4 * j) w' AND 15"
proof -
  from assms(1) have "\<forall>i \<in> set [0..<32].
      hex_digit (unat (drop_bit (4 * (31 - i)) w AND 15)) =
      hex_digit (unat (drop_bit (4 * (31 - i)) w' AND 15))"
    unfolding hex32_def map_eq_conv .
  moreover from assms(2) have "31 - j \<in> set [0..<32]" "31 - (31 - j) = j" by auto
  ultimately have "hex_digit (unat (drop_bit (4 * j) w AND 15)) =
      hex_digit (unat (drop_bit (4 * j) w' AND 15))"
    by metis
  then have "unat (drop_bit (4 * j) w AND 15) = unat (drop_bit (4 * j) w' AND 15)"
    by (rule hex_digit_inj[OF nibble_less nibble_less])
  then show ?thesis by (simp add: word_unat_eq_iff)
qed

lemma hex32_inj: "hex32 w = hex32 w' \<Longrightarrow> w = w'"
proof (rule bit_eqI)
  fix n assume eq: "hex32 w = hex32 w'" and "possible_bit TYPE(128 word) n"
  then have n: "n < 128" by simp
  then have j: "n div 4 < 32" by simp
  have m: "n mod 4 < 128" by (rule less_trans[of _ 4]) simp_all
  have *: "bit (drop_bit (4 * (n div 4)) v AND 15) (n mod 4) = bit v n" for v :: "128 word"
    using m by (simp add: fifteen bit_simps)
  from hex32_nibbles[OF eq j] show "bit w n = bit w' n"
    using *[of w] *[of w'] by simp
qed

lemma split_groups:
  "v = take 8 v @ take 4 (drop 8 v) @ take 4 (drop 12 v) @ take 4 (drop 16 v) @ drop 20 v"
proof -
  have "drop 16 v = take 4 (drop 16 v) @ drop 20 v"
    using append_take_drop_id[of 4 "drop 16 v"] by simp
  moreover have "drop 12 v = take 4 (drop 12 v) @ drop 16 v"
    using append_take_drop_id[of 4 "drop 12 v"] by simp
  moreover have "drop 8 v = take 4 (drop 8 v) @ drop 12 v"
    using append_take_drop_id[of 4 "drop 8 v"] by simp
  moreover have "v = take 8 v @ drop 8 v" by simp
  ultimately show ?thesis by metis
qed

lemma str_uuid_inj: "str_uuid w = str_uuid w' \<Longrightarrow> w = w'"
proof -
  assume eq: "str_uuid w = str_uuid w'"
  let ?x = "hex32 w" and ?y = "hex32 w'"
  have len: "length ?x = 32" "length ?y = 32" by (simp_all add: length_hex32)
  from eq have parts: "take 8 ?x = take 8 ?y \<and> take 4 (drop 8 ?x) = take 4 (drop 8 ?y) \<and>
      take 4 (drop 12 ?x) = take 4 (drop 12 ?y) \<and> take 4 (drop 16 ?x) = take 4 (drop 16 ?y) \<and>
      drop 20 ?x = drop 20 ?y"
    by (simp add: str_uuid_def Let_def len)
  have "?x = ?y"
    by (subst split_groups[of ?x], subst split_groups[of ?y]) (simp only: parts)
  then show ?thesis by (rule hex32_inj)
qed

subsection \<open>The tokens of generate_uuid\<close>

lemma fst_generate_uuid: "fst (generate_uuid s) = uuid4_str (urandom s (reads s))"
  by (simp add: generate_uuid_def os_urandom16_def)

lemma range_generate_uuid: "range (\<lambda>s. fst (generate_uuid s)) = str_uuid ` range uuid4_int"
proof (intro set_eqI iffI)
  fix t assume "t \<in> range (\<lambda>s. fst (generate_uuid s))"
  then show "t \<in> str_uuid ` range uuid4_int"
    by (auto simp: fst_generate_uuid uuid4_str_def)
next
  fix t assume "t \<in> str_uuid ` range uuid4_int"
  then obtain r where t: "t = uuid4_str r" by (auto simp: uuid4_str_def)
  have "fst (generate_uuid \<lparr>db = [], urandom = (\<lambda>n. r), reads = 0\<rparr>) = uuid4_str r"
    by (simp add: fst_generate_uuid)
  with t show "t \<in> range (\<lambda>s. fst (generate_uuid s))"
    by (metis rangeI)
qed

lemma card_range_generate_uuid: "card (range (\<lambda>s. fst (generate_uuid s))) = 2 ^ 122"
proof -
  have "inj_on str_uuid (range uuid4_int)"
    by (rule inj_onI) (rule str_uuid_inj)
  then have "card (str_uuid ` range uuid4_int) = card (range uuid4_int)"
    by (rule card_image)
  then show ?thesis
    by (simp only: range_generate_uuid card_range_uuid4_int)
qed

text \<open>
  The token space is not of size \<open>2 ^ 128\<close>: two blocks of the random source that differ
  in bit 62 only give the same token, and the generator has fewer than \<open>2 ^ 128\<close> values.
\<close>

theorem generate_uuid_space_counterexample:
  "fst (generate_uuid \<lparr>db = [], urandom = (\<lambda>n. 0), reads = 0\<rparr>) =
     fst (generate_uuid \<lparr>db = [], urandom = (\<lambda>n. push_bit 62 1), reads = 0\<rparr>) \<and>
   (0 :: 128 word) \<noteq> push_bit 62 1 \<and>
   \<not> 2 ^ 128 \<le> card (range (\<lambda>s. fst (generate_uuid s)))"
proof -
  have "uuid4_int 0 = uuid4_int (push_bit 62 1)"
    using uuid4_collision by (simp add: single_bit_def)
  then have 1: "fst (generate_uuid \<lparr>db = [], urandom = (\<lambda>n. 0), reads = 0\<rparr>) =
     fst (generate_uuid \<lparr>db = [], urandom = (\<lambda>n. push_bit 62 1), reads = 0\<rparr>)"
    by (simp add: fst_generate_uuid uuid4_str_def)
  have 2: "(0 :: 128 word) \<noteq> push_bit 62 1" by simp
  have "(2::nat) ^ 122 < 2 ^ 128" by simp
  then have 3: "\<not> 2 ^ 128 \<le> card (range (\<lambda>s. fst (generate_uuid s)))"
    by (simp only: card_range_generate_uuid not_le)
  from 1 2 3 show ?thesis by blast
qed

text \<open>
  Claim C9, as the code has it. \<open>_generate_uuid\<close> reads one 16-byte block of the random
  source and returns \<open>str(uuid.uuid4())\<close> of it: a 36-character string that renders a
  128-bit number in which six bits are fixed (bits 63 and 78 set, bits 62, 76, 77 and 79
  clear) and the other 122 bits are those of the block. The generator has exactly
  \<open>2 ^ 122\<close> values. \<open>create_session\<close> and \<open>get_reset_password_token\<close> return the token
  that \<open>_generate_uuid\<close> makes in the same state, so session tokens and reset tokens are
  generated identically.
\<close>

theorem generate_uuid_space:
  "card (range (\<lambda>s. fst (generate_uuid s))) = 2 ^ 122 \<and>
   generate_uuid s = (uuid4_str (urandom s (reads s)), s\<lparr>reads := Suc (reads s)\<rparr>) \<and>
   length (fst (generate_uuid s)) = 36 \<and>
   (\<forall>n. bit (uuid4_int r) n \<longleftrightarrow>
      (if n = 63 \<or> n = 78 then True
       else if n = 62 \<or> n = 76 \<or> n = 77 \<or> n = 79 then False
       else bit r n)) \<and>
   ((\<exists>u\<in>set (db s). email u = e) \<longrightarrow>
      fst (create_session e s) = Inr (Some (fst (generate_uuid s))) \<and>
      fst (get_reset_password_token e s) = Inr (fst (generate_uuid s)))"
proof (intro conjI impI allI)
  show "card (range (\<lambda>s. fst (generate_uuid s))) = 2 ^ 122"
    by (rule card_range_generate_uuid)
  show "generate_uuid s = (uuid4_str (urandom s (reads s)), s\<lparr>reads := Suc (reads s)\<rparr>)"
    by (simp add: generate_uuid_def os_urandom16_def)
  show "length (fst (generate_uuid s)) = 36"
    by (simp add: fst_generate_uuid uuid4_str_def length_str_uuid)
  show "bit (uuid4_int r) n \<longleftrightarrow>
      (if n = 63 \<or> n = 78 then True
       else if n = 62 \<or> n = 76 \<or> n = 77 \<or> n = 79 then False
       else bit r n)" for n
    by (rule bit_uuid4_int)
next
  assume "\<exists>u\<in>set (db s). email u = e"
  then obtain u where u: "find_user_by (email_is e) (db s) = Inr u"
    using email_present by blast
  show "fst (create_session e s) = Inr (Some (fst (generate_uuid s)))"
    by (simp add: create_session_found[OF u] fst_generate_uuid)
  show "fst (get_reset_password_token e s) = Inr (fst (generate_uuid s))"
    by (simp add: get_reset_password_token_found[OF u] fst_generate_uuid)
qed

theorem generate_uuid_space_witness:
  "generate_uuid example_registered =
     (''00000000-0000-4000-8000-000000000001'', example_registered\<lparr>reads := 2\<rparr>) \<and>
   fst (create_session ''a@x.com'' example_registered) =
     Inr (Some ''00000000-0000-4000-8000-000000000001'') \<and>
   fst (get_reset_password_token ''a@x.com'' example_registered) =
     Inr ''00000000-0000-4000-8000-000000000001''"
proof -
  have h: "\<exists>u\<in>set (db example_registered). email u = ''a@x.com''"
    by (simp add: example_registered_def example_user_def)
  have r: "urandom example_registered (Suc 0) = 1" "reads example_registered = Suc 0"
    by (simp_all add: example_registered_def)
  show ?thesis
    using generate_uuid_space[of example_registered 0 "''a@x.com''"] h
    by (simp add: r uuid4_str_1)
qed

end
